theory Spec2Isabelle
  imports Main
begin

section \<open>Python values, exceptions and effects of \<open>streamlit_app.py\<close>\<close>

text \<open>
  The script is one Python module: four functions around a Google Drive handle and a
  \<open>main\<close> that Streamlit re-runs on every user event. Everything the script does
  beyond computing values is made explicit here: the session list, the local transient
  files, the log file, the notices shown to the user and the calls that reach the remote
  store are fields of a \<open>world\<close> that every operation takes and returns; an exception
  is the \<open>Inl\<close> side of the result.

  Only subclasses of Python's \<open>Exception\<close> are values of \<open>exn\<close>, so that
  \<open>except Exception\<close> catches every \<open>exn\<close>.
\<close>

datatype exn =
    AttributeError string
  | ValueError string
  | KeyError string
  | FileNotFoundError string
  | LibraryError string

text \<open>A cell of the annotation table: a Python \<open>str\<close>, a Python \<open>int\<close>, or the
  missing value pandas writes for an absent key.\<close>

datatype cell = Str string | Num int | NaN

text \<open>A Python \<open>dict\<close> with string keys, in insertion order.\<close>

type_synonym pydict = "(string \<times> cell) list"

text \<open>An f-string is kept as its pieces: the literal text and the interpolated values,
  in order, without committing to how \<open>str\<close> and \<open>repr\<close> print them.\<close>

datatype frag =
    Lit string
  | Val string
  | Count nat
  | Exc exn
  | Dict pydict

type_synonym fstring = "frag list"

datatype level = INFO | WARNING | ERROR

datatype notice = St_error | St_success | St_warning | St_info
  | Sidebar_error | Sidebar_success | Sidebar_warning

text \<open>The content of a local file: raw bytes, or the table \<open>to_csv\<close> wrote (header row
  and data rows).\<close>

datatype content = Bytes string | Table "string list" "cell list list"

text \<open>An expression of the store's query language, for the part of the language that
  is modelled.\<close>

datatype query =
    In_parents string
  | Trashed_eq bool
  | MimeType_eq string
  | And_q query query
  | Or_q query query

datatype remote_call =
    Call_LocalWebserverAuth
  | Call_Refresh
  | Call_ListFile string
  | Call_Upload string "string option"
  | Call_FetchContent string

record world =
  annotations :: "pydict list option"
  local_files :: "string \<rightharpoonup> content"
  app_log :: "(level \<times> fstring) list"
  notices :: "(notice \<times> fstring) list"
  remote_calls :: "remote_call list"

type_synonym 'a py = "world \<Rightarrow> (exn + 'a) \<times> world"

definition py_return :: "'a \<Rightarrow> 'a py" where
  "py_return x w = (Inr x, w)"

definition py_raise :: "exn \<Rightarrow> 'a py" where
  "py_raise e w = (Inl e, w)"

definition py_bind :: "'a py \<Rightarrow> ('a \<Rightarrow> 'b py) \<Rightarrow> 'b py" where
  "py_bind m f w = (case m w of (Inl e, w') \<Rightarrow> (Inl e, w') | (Inr x, w') \<Rightarrow> f x w')"

text \<open>\<open>try: m  except Exception as e: h e\<close>\<close>

definition py_try :: "'a py \<Rightarrow> (exn \<Rightarrow> 'a py) \<Rightarrow> 'a py" where
  "py_try m h w = (case m w of (Inl e, w') \<Rightarrow> h e w' | (Inr x, w') \<Rightarrow> (Inr x, w'))"

text \<open>A library call whose only outcome of interest is whether it raised.\<close>

definition py_call :: "exn option \<Rightarrow> unit py" where
  "py_call outcome = (case outcome of None \<Rightarrow> py_return () | Some e \<Rightarrow> py_raise e)"

definition py_result :: "exn + 'a \<Rightarrow> 'a py" where
  "py_result r = (case r of Inl e \<Rightarrow> py_raise e | Inr x \<Rightarrow> py_return x)"

definition logging :: "level \<Rightarrow> fstring \<Rightarrow> unit py" where
  "logging lvl msg w = (Inr (), w\<lparr>app_log := app_log w @ [(lvl, msg)]\<rparr>)"

definition st_notice :: "notice \<Rightarrow> fstring \<Rightarrow> unit py" where
  "st_notice k msg w = (Inr (), w\<lparr>notices := notices w @ [(k, msg)]\<rparr>)"

definition remote :: "remote_call \<Rightarrow> unit py" where
  "remote c w = (Inr (), w\<lparr>remote_calls := remote_calls w @ [c]\<rparr>)"

definition write_file :: "string \<Rightarrow> content \<Rightarrow> unit py" where
  "write_file p c w = (Inr (), w\<lparr>local_files := (local_files w)(p \<mapsto> c)\<rparr>)"

text \<open>\<open>os.remove\<close> and \<open>os.unlink\<close>: the file disappears, or FileNotFoundError.\<close>

definition os_remove :: "string \<Rightarrow> unit py" where
  "os_remove p w =
     (case local_files w p of
        None \<Rightarrow> (Inl (FileNotFoundError p), w)
      | Some _ \<Rightarrow> (Inr (), w\<lparr>local_files := (local_files w)(p := None)\<rparr>))"

section \<open>The remote store and the local libraries\<close>

text \<open>
  PyDrive, OpenCV, \<open>tempfile\<close> and \<open>os.path\<close> are not part of the repository. What
  they answer during a run is a parameter of the model, so every theorem holds for every
  behaviour of theirs, failures included.

  A \<open>remote_file\<close> is the dictionary PyDrive returns for a file: the script reads its
  \<open>id\<close> and \<open>title\<close>; \<open>mimeType\<close>, \<open>trashed\<close> and \<open>parents\<close> are what the query
  of \<open>list_drive_images\<close> speaks about.
\<close>

record remote_file =
  file_id :: string
  title :: string
  mimeType :: string
  trashed :: bool
  parents :: "string list"

text \<open>A value passed as \<open>file_obj\<close>: a Python \<open>str\<close> (which has no attribute
  \<open>name\<close>), or an object with a \<open>name\<close> attribute such as the \<open>BytesIO\<close> of the
  docstring.\<close>

datatype file_obj = PyStr string | Named string

record drive =
  store :: "remote_file list"
  GetList_error :: "exn option"
  Other_query_answer :: "string \<Rightarrow> exn + remote_file list"
  CreateFile_error :: "exn option"
  SetContentFile_error :: "file_obj \<Rightarrow> exn option"
  Upload_result :: "string \<Rightarrow> exn + string"
  FetchContent_result :: "string \<Rightarrow> exn + string"

datatype credentials = No_credentials | Token_expired | Token_valid

record image =
  height :: nat
  width :: nat

record env =
  GoogleAuth_error :: "exn option"
  LoadCredentialsFile_result :: "exn + credentials"
  LocalWebserverAuth_error :: "exn option"
  Refresh_error :: "exn option"
  Authorize_error :: "exn option"
  SaveCredentialsFile_error :: "exn option"
  GoogleDrive_result :: "exn + drive"
  imread :: "content \<Rightarrow> image option"
  tmp_name :: "string \<Rightarrow> string"
  splitext_lower :: "string \<Rightarrow> string"

definition GDRIVE_FOLDER_ID :: string where
  "GDRIVE_FOLDER_ID = ''YOUR_GOOGLE_DRIVE_FOLDER_ID''"

definition ALLOWED_IMAGE_EXTENSIONS :: "string list" where
  "ALLOWED_IMAGE_EXTENSIONS = [''.jpg'', ''.jpeg'', ''.png'']"

section \<open>\<open>authenticate_drive\<close>\<close>

definition authenticate_drive :: "env \<Rightarrow> drive option py" where
  "authenticate_drive env =
     py_try
       (py_bind (py_call (GoogleAuth_error env)) (\<lambda>_.
        py_bind (py_result (LoadCredentialsFile_result env)) (\<lambda>creds.
        py_bind (case creds of
                   No_credentials \<Rightarrow>
                     py_bind (remote Call_LocalWebserverAuth) (\<lambda>_.
                     py_call (LocalWebserverAuth_error env))
                 | Token_expired \<Rightarrow>
                     py_bind (remote Call_Refresh) (\<lambda>_.
                     py_call (Refresh_error env))
                 | Token_valid \<Rightarrow> py_call (Authorize_error env)) (\<lambda>_.
        py_bind (py_call (SaveCredentialsFile_error env)) (\<lambda>_.
        py_bind (py_result (GoogleDrive_result env)) (\<lambda>drive.
        py_bind (logging INFO [Lit ''Successfully authenticated with Google Drive.'']) (\<lambda>_.
        py_return (Some drive))))))))
       (\<lambda>e.
        py_bind (logging ERROR [Lit ''Google Drive authentication failed: '', Exc e]) (\<lambda>_.
        py_bind (st_notice St_error
                   [Lit ''Failed to authenticate with Google Drive. Please check the logs.'']) (\<lambda>_.
        py_return None)))"

section \<open>\<open>upload_to_drive\<close>\<close>

text \<open>\<open>file_obj.name\<close>\<close>

definition getattr_name :: "file_obj \<Rightarrow> string py" where
  "getattr_name file_obj =
     (case file_obj of
        PyStr _ \<Rightarrow> py_raise (AttributeError ''name'')
      | Named n \<Rightarrow> py_return n)"

text \<open>\<open>if folder_id\<close>: \<open>None\<close> and the empty string are false.\<close>

definition truthy :: "string option \<Rightarrow> bool" where
  "truthy folder_id = (case folder_id of None \<Rightarrow> False | Some s \<Rightarrow> s \<noteq> [])"

definition upload_to_drive :: "drive \<Rightarrow> file_obj \<Rightarrow> string option \<Rightarrow> string option py" where
  "upload_to_drive drive file_obj folder_id =
     py_try
       (py_bind (getattr_name file_obj) (\<lambda>file_name.
        py_bind (py_call (CreateFile_error drive)) (\<lambda>_.
        py_bind (py_call (SetContentFile_error drive file_obj)) (\<lambda>_.
        py_bind (remote (Call_Upload file_name (if truthy folder_id then folder_id else None))) (\<lambda>_.
        py_bind (py_result (Upload_result drive file_name)) (\<lambda>new_id.
        py_bind (logging INFO [Lit ''Uploaded '', Val file_name,
                               Lit '' to Google Drive with ID: '', Val new_id]) (\<lambda>_.
        py_return (Some new_id))))))))
       (\<lambda>e.
        py_bind (getattr_name file_obj) (\<lambda>n.
        py_bind (logging ERROR [Lit ''Failed to upload '', Val n,
                                Lit '' to Google Drive: '', Exc e]) (\<lambda>_.
        py_bind (getattr_name file_obj) (\<lambda>n'.
        py_bind (st_notice St_error [Lit ''Failed to upload '', Val n',
                                     Lit '' to Google Drive.'']) (\<lambda>_.
        py_return None)))))"

section \<open>\<open>list_drive_images\<close>\<close>

text \<open>
  The f-string of the source is
  \<^verbatim>\<open>'{folder_id}' in parents and trashed=false and (mimeType='image/jpeg' or mimeType='image/png')\<close>:
  \<open>folder_id\<close> is pasted into the text as it is, between two quotes, with no escaping.
\<close>

definition quote :: char where
  "quote = CHR 0x27"

definition backslash :: char where
  "backslash = CHR 0x5C"

definition query_text :: "string \<Rightarrow> string" where
  "query_text folder_id =
     [quote] @ folder_id @ [quote] @ '' in parents and trashed=false and (mimeType='' @
     [quote] @ ''image/jpeg'' @ [quote] @ '' or mimeType='' @
     [quote] @ ''image/png'' @ [quote] @ '')''"

text \<open>
  The store reads the text it is sent. The part of its query language modelled here has
  the comparisons \<open>'...' in parents\<close>, \<open>trashed = true\<close>, \<open>trashed = false\<close> and
  \<open>mimeType = '...'\<close>, the operators \<open>and\<close> and \<open>or\<close> (\<open>and\<close> binds tighter,
  both associate to the left) and parentheses. A string literal ends at the first quote
  that no backslash precedes; a backslash makes the next character part of the literal.
  What the store answers to a text outside this part is a parameter of the model
  (\<open>Other_query_answer\<close>).
\<close>

datatype token = TStr string | TWord string | TEq | TOpen | TClose

datatype scan_state = Between | In_word string | In_string string | After_backslash string

definition is_letter :: "char \<Rightarrow> bool" where
  "is_letter c = (c \<in> set ''abcdefghijklmnopqrstuvwxyzABCDEFGHIJKLMNOPQRSTUVWXYZ'')"

text \<open>A character that is not a letter, outside a string literal: the token it stands
  for, if any, and the state after it.\<close>

definition punct :: "char \<Rightarrow> (token option \<times> scan_state) option" where
  "punct c =
     (if c = quote then Some (None, In_string [])
      else if c = CHR '' '' then Some (None, Between)
      else if c = CHR ''('' then Some (Some TOpen, Between)
      else if c = CHR '')'' then Some (Some TClose, Between)
      else if c = CHR ''='' then Some (Some TEq, Between)
      else None)"

definition emit :: "token option \<Rightarrow> token list option \<Rightarrow> token list option" where
  "emit t rest = (case t of None \<Rightarrow> rest | Some tok \<Rightarrow> map_option (Cons tok) rest)"

fun scan :: "scan_state \<Rightarrow> string \<Rightarrow> token list option" where
  "scan Between [] = Some []"
| "scan (In_word a) [] = Some [TWord (rev a)]"
| "scan (In_string a) [] = None"
| "scan (After_backslash a) [] = None"
| "scan Between (c # cs) =
     (if is_letter c then scan (In_word [c]) cs
      else case punct c of
             None \<Rightarrow> None
           | Some (t, st) \<Rightarrow> emit t (scan st cs))"
| "scan (In_word a) (c # cs) =
     (if is_letter c then scan (In_word (c # a)) cs
      else case punct c of
             None \<Rightarrow> None
           | Some (t, st) \<Rightarrow> emit (Some (TWord (rev a))) (emit t (scan st cs)))"
| "scan (In_string a) (c # cs) =
     (if c = quote then emit (Some (TStr (rev a))) (scan Between cs)
      else if c = backslash then scan (After_backslash a) cs
      else scan (In_string (c # a)) cs)"
| "scan (After_backslash a) (c # cs) = scan (In_string (c # a)) cs"

datatype item = Atom query | IAnd | IOr | IOpen | IClose

fun items :: "token list \<Rightarrow> item list option" where
  "items [] = Some []"
| "items (TStr s # TWord a # TWord b # ts) =
     (if a = ''in'' \<and> b = ''parents''
      then map_option (Cons (Atom (In_parents s))) (items ts) else None)"
| "items (TWord a # TEq # TWord b # ts) =
     (if a = ''trashed'' \<and> b = ''true''
      then map_option (Cons (Atom (Trashed_eq True))) (items ts)
      else if a = ''trashed'' \<and> b = ''false''
      then map_option (Cons (Atom (Trashed_eq False))) (items ts)
      else None)"
| "items (TWord a # TEq # TStr s # ts) =
     (if a = ''mimeType''
      then map_option (Cons (Atom (MimeType_eq s))) (items ts) else None)"
| "items (TWord a # ts) =
     (if a = ''and'' then map_option (Cons IAnd) (items ts)
      else if a = ''or'' then map_option (Cons IOr) (items ts)
      else None)"
| "items (TOpen # ts) = map_option (Cons IOpen) (items ts)"
| "items (TClose # ts) = map_option (Cons IClose) (items ts)"
| "items _ = None"

text \<open>Operands and pending operators are kept on two stacks; \<open>want\<close> says whether
  an operand or an operator has to come next.\<close>

datatype operator = OAnd | OOr | OOpen

fun prec :: "operator \<Rightarrow> nat" where
  "prec OAnd = 2"
| "prec OOr = 1"
| "prec OOpen = 0"

fun apply_op :: "operator \<Rightarrow> query list \<Rightarrow> query list option" where
  "apply_op OAnd (b # a # out) = Some (And_q a b # out)"
| "apply_op OOr (b # a # out) = Some (Or_q a b # out)"
| "apply_op _ _ = None"

fun push_op ::
  "operator \<Rightarrow> operator list \<Rightarrow> query list \<Rightarrow> (operator list \<times> query list) option" where
  "push_op new [] out = Some ([new], out)"
| "push_op new (p # ops) out =
     (if p = OOpen \<or> prec p < prec new then Some (new # p # ops, out)
      else case apply_op p out of
             None \<Rightarrow> None
           | Some out' \<Rightarrow> push_op new ops out')"

fun close_paren :: "operator list \<Rightarrow> query list \<Rightarrow> (operator list \<times> query list) option" where
  "close_paren [] out = None"
| "close_paren (p # ops) out =
     (if p = OOpen then Some (ops, out)
      else case apply_op p out of
             None \<Rightarrow> None
           | Some out' \<Rightarrow> close_paren ops out')"

fun finish :: "operator list \<Rightarrow> query list \<Rightarrow> query option" where
  "finish [] out = (case out of [q] \<Rightarrow> Some q | _ \<Rightarrow> None)"
| "finish (p # ops) out =
     (if p = OOpen then None
      else case apply_op p out of
             None \<Rightarrow> None
           | Some out' \<Rightarrow> finish ops out')"

fun shunt :: "bool \<Rightarrow> operator list \<Rightarrow> query list \<Rightarrow> item list \<Rightarrow> query option" where
  "shunt want ops out [] = (if want then None else finish ops out)"
| "shunt want ops out (Atom q # rest) =
     (if want then shunt False ops (q # out) rest else None)"
| "shunt want ops out (IOpen # rest) =
     (if want then shunt True (OOpen # ops) out rest else None)"
| "shunt want ops out (IClose # rest) =
     (if want then None
      else case close_paren ops out of
             None \<Rightarrow> None
           | Some (ops', out') \<Rightarrow> shunt False ops' out' rest)"
| "shunt want ops out (IAnd # rest) =
     (if want then None
      else case push_op OAnd ops out of
             None \<Rightarrow> None
           | Some (ops', out') \<Rightarrow> shunt True ops' out' rest)"
| "shunt want ops out (IOr # rest) =
     (if want then None
      else case push_op OOr ops out of
             None \<Rightarrow> None
           | Some (ops', out') \<Rightarrow> shunt True ops' out' rest)"

definition parse_query :: "string \<Rightarrow> query option" where
  "parse_query text =
     (case scan Between text of
        None \<Rightarrow> None
      | Some tokens \<Rightarrow>
          (case items tokens of
             None \<Rightarrow> None
           | Some its \<Rightarrow> shunt True [] [] its))"

fun eval_query :: "query \<Rightarrow> remote_file \<Rightarrow> bool" where
  "eval_query (In_parents folder) f = (folder \<in> set (parents f))"
| "eval_query (Trashed_eq b) f = (trashed f = b)"
| "eval_query (MimeType_eq m) f = (mimeType f = m)"
| "eval_query (And_q p q) f = (eval_query p f \<and> eval_query q f)"
| "eval_query (Or_q p q) f = (eval_query p f \<or> eval_query q f)"

text \<open>\<open>drive.ListFile({'q': query}).GetList()\<close>: the call may raise; otherwise the store
  answers with the files that satisfy the text it was sent.\<close>

definition ListFile_GetList :: "drive \<Rightarrow> string \<Rightarrow> remote_file list py" where
  "ListFile_GetList drive text =
     py_bind (remote (Call_ListFile text)) (\<lambda>_.
     py_bind (py_call (GetList_error drive)) (\<lambda>_.
     case parse_query text of
       None \<Rightarrow> py_result (Other_query_answer drive text)
     | Some q \<Rightarrow> py_return (filter (eval_query q) (store drive))))"

definition list_drive_images :: "drive \<Rightarrow> string \<Rightarrow> remote_file list py" where
  "list_drive_images drive folder_id =
     py_try
       (py_bind (ListFile_GetList drive (query_text folder_id)) (\<lambda>file_list.
        py_bind (logging INFO [Lit ''Retrieved '', Count (length file_list),
                               Lit '' images from Google Drive folder ID: '', Val folder_id]) (\<lambda>_.
        py_return file_list)))
       (\<lambda>e.
        py_bind (logging ERROR [Lit ''Failed to list images from Google Drive folder ID '',
                                Val folder_id, Lit '': '', Exc e]) (\<lambda>_.
        py_bind (st_notice St_error [Lit ''Failed to retrieve images from Google Drive.'']) (\<lambda>_.
        py_return [])))"

section \<open>\<open>download_image\<close>\<close>

text \<open>PyDrive's \<open>GetContentFile\<close> fetches the content first and writes the local file
  afterwards, so a failed fetch leaves no file behind.\<close>

definition GetContentFile :: "drive \<Rightarrow> string \<Rightarrow> string \<Rightarrow> unit py" where
  "GetContentFile drive fid filename =
     py_bind (remote (Call_FetchContent fid)) (\<lambda>_.
     py_bind (py_result (FetchContent_result drive fid)) (\<lambda>bytes.
     write_file filename (Bytes bytes)))"

text \<open>\<open>cv2.imread\<close> does not raise on a file it cannot read or decode: it returns
  \<open>None\<close>.\<close>

definition cv2_imread :: "env \<Rightarrow> string \<Rightarrow> image option py" where
  "cv2_imread env filename w =
     (Inr (case local_files w filename of None \<Rightarrow> None | Some c \<Rightarrow> imread env c), w)"

definition download_image :: "drive \<Rightarrow> env \<Rightarrow> string \<Rightarrow> image option py" where
  "download_image drive env fid =
     py_try
       (py_bind (py_call (CreateFile_error drive)) (\<lambda>_.
        py_bind (GetContentFile drive fid ''temp_image'') (\<lambda>_.
        py_bind (cv2_imread env ''temp_image'') (\<lambda>image.
        py_bind (os_remove ''temp_image'') (\<lambda>_.
        case image of
          None \<Rightarrow> py_raise (ValueError ''Downloaded image is None.'')
        | Some img \<Rightarrow>
            py_bind (logging INFO [Lit ''Downloaded image ID: '', Val fid]) (\<lambda>_.
            py_return (Some img)))))))
       (\<lambda>e.
        py_bind (logging ERROR [Lit ''Failed to download image ID '', Val fid,
                                Lit '': '', Exc e]) (\<lambda>_.
        py_bind (st_notice St_error [Lit ''Failed to download an image from Google Drive.'']) (\<lambda>_.
        py_return None)))"

section \<open>\<open>main\<close>\<close>

text \<open>
  What the widgets return in one run of the script is the record \<open>inputs\<close>. The parts
  of \<open>main\<close> follow the source top-down. Calls that only lay out the page
  (\<open>st.set_page_config\<close>, \<open>st.title\<close>, \<open>st.header\<close>, \<open>st.write\<close>,
  \<open>st.markdown\<close>, \<open>st.image\<close>, and the thumbnail loop of lines 140-151 with the
  log line of its own handler) touch nothing a later line reads and are left out; the
  notices \<open>st.error\<close>, \<open>st.success\<close>, \<open>st.warning\<close> and \<open>st.info\<close> are
  kept. Writing a local file is taken to succeed.
\<close>

record uploaded_file =
  up_name :: string
  up_buffer :: string

record inputs =
  uploaded_files :: "uploaded_file list"
  selected :: nat
  label_input :: string
  x_min_input :: int
  y_min_input :: int
  x_max_input :: int
  y_max_input :: int
  save_clicked :: bool
  save_all_clicked :: bool

subsection \<open>Lines 160-178: the upload loop of the sidebar\<close>

fun upload_new_images :: "drive \<Rightarrow> env \<Rightarrow> uploaded_file list \<Rightarrow> unit py" where
  "upload_new_images drive env [] = py_return ()"
| "upload_new_images drive env (uploaded # rest) =
     (let file_extension = splitext_lower env (up_name uploaded) in
      if file_extension \<notin> set ALLOWED_IMAGE_EXTENSIONS then
        py_bind (st_notice Sidebar_warning [Lit ''File '', Val (up_name uploaded),
                                            Lit '' has an unsupported extension.'']) (\<lambda>_.
        py_bind (logging WARNING [Lit ''Attempted to upload unsupported file type: '',
                                  Val (up_name uploaded)]) (\<lambda>_.
        upload_new_images drive env rest))
      else
        (let tmp_file_path = tmp_name env file_extension in
         py_bind (write_file tmp_file_path (Bytes (up_buffer uploaded))) (\<lambda>_.
         py_bind (upload_to_drive drive (PyStr tmp_file_path) (Some GDRIVE_FOLDER_ID)) (\<lambda>new_id.
         py_bind (if truthy new_id
                  then st_notice Sidebar_success [Lit ''Uploaded '', Val (up_name uploaded),
                                                  Lit '' successfully.'']
                  else st_notice Sidebar_error [Lit ''Failed to upload '', Val (up_name uploaded),
                                                Lit ''.'']) (\<lambda>_.
         py_bind (os_remove tmp_file_path) (\<lambda>_.
         upload_new_images drive env rest))))))"

subsection \<open>Lines 187-188: the session list\<close>

definition session_init :: "unit py" where
  "session_init w =
     (Inr (), case annotations w of None \<Rightarrow> w\<lparr>annotations := Some []\<rparr> | Some _ \<Rightarrow> w)"

definition session_get :: "pydict list py" where
  "session_get w =
     (case annotations w of None \<Rightarrow> (Inl (KeyError ''annotations''), w) | Some s \<Rightarrow> (Inr s, w))"

definition session_append :: "pydict \<Rightarrow> unit py" where
  "session_append a =
     py_bind session_get (\<lambda>s w. (Inr (), w\<lparr>annotations := Some (s @ [a])\<rparr>))"

definition session_clear :: "unit py" where
  "session_clear w = (Inr (), w\<lparr>annotations := Some []\<rparr>)"

subsection \<open>Lines 191-229: selecting an image and saving one annotation\<close>

text \<open>\<open>d[k] = v\<close>: an existing key keeps its place and takes the new value, a new key
  goes to the end.\<close>

fun dict_set :: "('k \<times> 'v) list \<Rightarrow> 'k \<Rightarrow> 'v \<Rightarrow> ('k \<times> 'v) list" where
  "dict_set [] k v = [(k, v)]"
| "dict_set ((k', v') # d) k v =
     (if k' = k then (k, v) # d else (k', v') # dict_set d k v)"

text \<open>\<open>{img['title']: img['id'] for img in drive_images}\<close>\<close>

definition image_options_of :: "remote_file list \<Rightarrow> (string \<times> string) list" where
  "image_options_of drive_images =
     foldl (\<lambda>d img. dict_set d (title img) (file_id img)) [] drive_images"

text \<open>\<open>st.selectbox\<close> returns one of its options (the first one unless the user picked
  another), and \<open>None\<close> when there are no options.\<close>

definition selectbox :: "string list \<Rightarrow> nat \<Rightarrow> string option" where
  "selectbox options i =
     (if options = [] then None
      else if i < length options then Some (options ! i) else Some (hd options))"

definition annotation_of :: "string \<Rightarrow> string \<Rightarrow> int \<Rightarrow> int \<Rightarrow> int \<Rightarrow> int \<Rightarrow> pydict" where
  "annotation_of selected_image_title label x_min y_min x_max y_max =
     [(''filename'', Str selected_image_title),
      (''label'', Str label),
      (''x_min'', Num x_min),
      (''y_min'', Num y_min),
      (''x_max'', Num x_max),
      (''y_max'', Num y_max)]"

text \<open>Lines 212-227, the body of \<open>if st.button("Save Annotation for ...")\<close>.\<close>

definition main_save_annotation ::
  "string \<Rightarrow> string \<Rightarrow> int \<Rightarrow> int \<Rightarrow> int \<Rightarrow> int \<Rightarrow> unit py" where
  "main_save_annotation selected_image_title label x_min y_min x_max y_max =
     (if x_min \<ge> x_max \<or> y_min \<ge> y_max then
        py_bind (st_notice St_error
          [Lit ''Invalid coordinates: x_min must be less than x_max and y_min less than y_max.'']) (\<lambda>_.
        logging WARNING [Lit ''Invalid annotation coordinates for '',
                         Val selected_image_title, Lit ''.''])
      else
        (let annotation = annotation_of selected_image_title label x_min y_min x_max y_max in
         py_bind (session_append annotation) (\<lambda>_.
         py_bind (st_notice St_success [Lit ''Annotation saved for '',
                                        Val selected_image_title]) (\<lambda>_.
         logging INFO [Lit ''Annotation saved for '', Val selected_image_title,
                       Lit '': '', Dict annotation]))))"

definition main_annotate :: "drive \<Rightarrow> env \<Rightarrow> inputs \<Rightarrow> remote_file list \<Rightarrow> unit py" where
  "main_annotate drive env inp drive_images =
     (if drive_images \<noteq> [] then
        (let image_options = image_options_of drive_images in
         case selectbox (map fst image_options) (selected inp) of
           None \<Rightarrow> py_raise (KeyError ''None'')
         | Some selected_image_title \<Rightarrow>
             (case map_of image_options selected_image_title of
                None \<Rightarrow> py_raise (KeyError selected_image_title)
              | Some selected_image_id \<Rightarrow>
                  py_bind (download_image drive env selected_image_id) (\<lambda>image.
                  case image of
                    None \<Rightarrow> py_return ()
                  | Some img \<Rightarrow>
                      if save_clicked inp then
                        main_save_annotation selected_image_title (label_input inp)
                          (x_min_input inp) (y_min_input inp) (x_max_input inp) (y_max_input inp)
                      else py_return ())))
      else
        st_notice St_info
          [Lit ''No images available for annotation. Please upload images using the sidebar.''])"

subsection \<open>Lines 232-252: saving all annotations\<close>

text \<open>
  \<open>pd.DataFrame\<close> of a list of dictionaries: the columns are the keys in the order in
  which they first appear (pandas keeps the insertion order of plain dictionaries), and
  a dictionary without a column's key gets the missing value there.
  \<open>to_csv(path, index=False)\<close> writes the header row and one row per record. The
  table is kept as cells; how a cell is quoted in the text of the file is not modelled.
\<close>

record dataframe =
  columns :: "string list"
  data :: "cell list list"

definition add_keys :: "string list \<Rightarrow> pydict \<Rightarrow> string list" where
  "add_keys cols d = cols @ filter (\<lambda>k. k \<notin> set cols) (map fst d)"

definition cell_at :: "pydict \<Rightarrow> string \<Rightarrow> cell" where
  "cell_at d c = (case map_of d c of None \<Rightarrow> NaN | Some v \<Rightarrow> v)"

definition DataFrame :: "pydict list \<Rightarrow> dataframe" where
  "DataFrame records =
     (let cols = foldl add_keys [] records
      in \<lparr>columns = cols, data = map (\<lambda>d. map (cell_at d) cols) records\<rparr>)"

definition to_csv :: "dataframe \<Rightarrow> string \<Rightarrow> unit py" where
  "to_csv df path = write_file path (Table (columns df) (data df))"

definition main_export :: "drive \<Rightarrow> env \<Rightarrow> unit py" where
  "main_export drive env =
     py_bind session_get (\<lambda>session.
     if session \<noteq> [] then
       py_try
         (let df = DataFrame session; tmp_csv = tmp_name env ''.csv'' in
          py_bind (write_file tmp_csv (Bytes [])) (\<lambda>_.
          py_bind (to_csv df tmp_csv) (\<lambda>_.
          py_bind (upload_to_drive drive (PyStr tmp_csv) (Some GDRIVE_FOLDER_ID)) (\<lambda>_.
          py_bind (os_remove tmp_csv) (\<lambda>_.
          py_bind (st_notice St_success [Lit ''All annotations uploaded to Google Drive.'']) (\<lambda>_.
          py_bind (logging INFO [Lit ''All annotations uploaded to Google Drive.'']) (\<lambda>_.
          session_clear)))))))
         (\<lambda>e.
          py_bind (logging ERROR [Lit ''Failed to upload annotations: '', Exc e]) (\<lambda>_.
          st_notice St_error [Lit ''Failed to upload annotations to Google Drive.'']))
     else
       py_bind (st_notice St_warning [Lit ''No annotations to upload.'']) (\<lambda>_.
       logging WARNING [Lit ''Attempted to upload annotations, but none were found.'']))"

subsection \<open>The whole run\<close>

text \<open>\<open>st.stop()\<close> ends the run; the exception it uses is not an \<open>Exception\<close>, so
  the handler at the bottom of the file does not see it.\<close>

definition main :: "env \<Rightarrow> inputs \<Rightarrow> unit py" where
  "main env inp =
     py_bind (authenticate_drive env) (\<lambda>handle.
     case handle of
       None \<Rightarrow> py_return ()
     | Some drive \<Rightarrow>
         py_bind (list_drive_images drive GDRIVE_FOLDER_ID) (\<lambda>drive_images.
         py_bind (upload_new_images drive env (uploaded_files inp)) (\<lambda>_.
         py_bind session_init (\<lambda>_.
         py_bind (main_annotate drive env inp drive_images) (\<lambda>_.
         if save_all_clicked inp then main_export drive env else py_return ())))))"

definition script :: "env \<Rightarrow> inputs \<Rightarrow> unit py" where
  "script env inp =
     py_try (main env inp)
       (\<lambda>e.
        py_bind (logging ERROR [Lit ''An unexpected error occurred in the Streamlit app.'']) (\<lambda>_.
        st_notice St_error
          [Lit ''An unexpected error occurred. Please check the logs for more details.'']))"

section \<open>Sequences of events, invariants and sample data\<close>

text \<open>Clicking "Save Annotation" once for each entry of a list, in order: each entry is
  the title of the selected image, the label and the four bounds.\<close>

fun save_annotations :: "(string \<times> string \<times> int \<times> int \<times> int \<times> int) list \<Rightarrow> unit py" where
  "save_annotations [] = py_return ()"
| "save_annotations ((t, l, x0, y0, x1, y1) # rest) =
     py_bind (main_save_annotation t l x0 y0 x1 y1) (\<lambda>_. save_annotations rest)"

definition annotation_keys :: "string list" where
  "annotation_keys = [''filename'', ''label'', ''x_min'', ''y_min'', ''x_max'', ''y_max'']"

text \<open>Every dictionary of the session list has the six keys, in the order of line 217.\<close>

definition session_ok :: "world \<Rightarrow> bool" where
  "session_ok w =
     (case annotations w of
        None \<Rightarrow> True
      | Some s \<Rightarrow> list_all (\<lambda>d. map fst d = annotation_keys) s)"

text \<open>An operation leaves a component of the world as it found it.\<close>

definition keeps :: "(world \<Rightarrow> 'b) \<Rightarrow> 'a py \<Rightarrow> bool" where
  "keeps f m = (\<forall>w. f (snd (m w)) = f w)"

text \<open>An operation takes a world with a property to a world with it.\<close>

definition preserves :: "(world \<Rightarrow> bool) \<Rightarrow> 'a py \<Rightarrow> bool" where
  "preserves P m = (\<forall>w. P w \<longrightarrow> P (snd (m w)))"

text \<open>A folder with two images of the same title, a text file and a trashed image; a
  store and libraries that never fail; the world at the start of a session.\<close>

definition example_store :: "remote_file list" where
  "example_store =
     [\<lparr>file_id = ''id1'', title = ''photo.png'', mimeType = ''image/png'', trashed = False,
       parents = [''YOUR_GOOGLE_DRIVE_FOLDER_ID'']\<rparr>,
      \<lparr>file_id = ''id2'', title = ''notes.txt'', mimeType = ''text/plain'', trashed = False,
       parents = [''YOUR_GOOGLE_DRIVE_FOLDER_ID'']\<rparr>,
      \<lparr>file_id = ''id3'', title = ''photo.png'', mimeType = ''image/jpeg'', trashed = False,
       parents = [''YOUR_GOOGLE_DRIVE_FOLDER_ID'']\<rparr>,
      \<lparr>file_id = ''id4'', title = ''old.jpg'', mimeType = ''image/jpeg'', trashed = True,
       parents = [''YOUR_GOOGLE_DRIVE_FOLDER_ID'']\<rparr>]"

definition example_drive :: drive where
  "example_drive =
     \<lparr>store = example_store,
      GetList_error = None,
      Other_query_answer = (\<lambda>_. Inl (LibraryError ''Invalid query'')),
      CreateFile_error = None,
      SetContentFile_error = (\<lambda>_. None),
      Upload_result = (\<lambda>_. Inr ''id5''),
      FetchContent_result = (\<lambda>_. Inr ''pixels'')\<rparr>"

definition example_env :: env where
  "example_env =
     \<lparr>GoogleAuth_error = None,
      LoadCredentialsFile_result = Inr Token_valid,
      LocalWebserverAuth_error = None,
      Refresh_error = None,
      Authorize_error = None,
      SaveCredentialsFile_error = None,
      GoogleDrive_result = Inr example_drive,
      imread = (\<lambda>_. Some \<lparr>height = 480, width = 640\<rparr>),
      tmp_name = (\<lambda>suffix. ''/tmp/tmpk3x9'' @ suffix),
      splitext_lower = (\<lambda>_. ''.png'')\<rparr>"

definition start_world :: world where
  "start_world =
     \<lparr>annotations = Some [], local_files = Map.empty, app_log = [], notices = [],
      remote_calls = []\<rparr>"

text \<open>One run in which the user keeps the first image selected, types a label and a
  valid box, and clicks "Save Annotation".\<close>

definition example_inputs :: inputs where
  "example_inputs =
     \<lparr>uploaded_files = [], selected = 0, label_input = ''cat'',
      x_min_input = 1, y_min_input = 2, x_max_input = 10, y_max_input = 20,
      save_clicked = True, save_all_clicked = False\<rparr>"

section \<open>Auxiliary lemmas\<close>

subsection \<open>Effects and frames\<close>

lemmas py_defs = py_return_def py_raise_def py_bind_def py_try_def py_call_def py_result_def
  logging_def st_notice_def remote_def write_file_def os_remove_def

lemma keepsD: "keeps f m \<Longrightarrow> f (snd (m w)) = f w"
  by (simp add: keeps_def)

lemma keeps_return: "keeps f (py_return x)"
  by (simp add: keeps_def py_return_def)

lemma keeps_raise: "keeps f (py_raise e)"
  by (simp add: keeps_def py_raise_def)

lemma keeps_bind:
  assumes "keeps f m" and "\<And>x. keeps f (g x)"
  shows "keeps f (py_bind m g)"
proof -
  have "f (snd (py_bind m g w)) = f w" for w
  proof (cases "m w")
    case (Pair r w')
    have w': "f w' = f w" using keepsD [OF assms(1), of w] Pair by simp
    show ?thesis
    proof (cases r)
      case (Inl e)
      with Pair w' show ?thesis by (simp add: py_bind_def)
    next
      case (Inr x)
      with Pair w' keepsD [OF assms(2), of x w'] show ?thesis by (simp add: py_bind_def)
    qed
  qed
  then show ?thesis by (simp add: keeps_def)
qed

lemma keeps_try:
  assumes "keeps f m" and "\<And>e. keeps f (h e)"
  shows "keeps f (py_try m h)"
proof -
  have "f (snd (py_try m h w)) = f w" for w
  proof (cases "m w")
    case (Pair r w')
    have w': "f w' = f w" using keepsD [OF assms(1), of w] Pair by simp
    show ?thesis
    proof (cases r)
      case (Inl e)
      with Pair w' keepsD [OF assms(2), of e w'] show ?thesis by (simp add: py_try_def)
    next
      case (Inr x)
      with Pair w' show ?thesis by (simp add: py_try_def)
    qed
  qed
  then show ?thesis by (simp add: keeps_def)
qed

lemma keeps_call: "keeps f (py_call r)"
  by (cases r) (simp_all add: py_call_def keeps_return keeps_raise)

lemma keeps_result: "keeps f (py_result r)"
  by (cases r) (simp_all add: py_result_def keeps_return keeps_raise)

lemma keeps_annotations_prims:
  "keeps annotations (logging lvl msg)"
  "keeps annotations (st_notice k msg)"
  "keeps annotations (remote c)"
  "keeps annotations (write_file p c')"
  "keeps annotations (os_remove p)"
  "keeps annotations (cv2_imread env p)"
  by (simp_all add: keeps_def logging_def st_notice_def remote_def write_file_def os_remove_def
      cv2_imread_def split: option.splits)

lemma keeps_getattr_name: "keeps f (getattr_name file_obj)"
  by (cases file_obj) (simp_all add: getattr_name_def keeps_return keeps_raise)

lemmas keeps_intros = keeps_return keeps_raise keeps_bind keeps_try keeps_call keeps_result
  keeps_getattr_name

lemma keeps_annotations_authenticate: "keeps annotations (authenticate_drive env)"
  unfolding authenticate_drive_def
  by (intro keeps_intros keeps_annotations_prims allI conjI impI | simp split: credentials.split)+

lemma keeps_annotations_upload: "keeps annotations (upload_to_drive drive file_obj folder_id)"
  unfolding upload_to_drive_def
  by (intro keeps_intros keeps_annotations_prims)+

lemma keeps_annotations_list: "keeps annotations (list_drive_images drive folder_id)"
  unfolding list_drive_images_def ListFile_GetList_def
  by (intro keeps_intros keeps_annotations_prims allI conjI impI | simp split: option.split)+

lemma keeps_annotations_download: "keeps annotations (download_image drive env fid)"
  unfolding download_image_def GetContentFile_def
  by (intro keeps_intros keeps_annotations_prims allI conjI impI | simp split: option.split)+

lemma keeps_annotations_upload_new:
  "keeps annotations (upload_new_images drive env files)"
proof (induction files)
  case Nil
  show ?case by (simp add: keeps_return)
next
  case (Cons f fs)
  show ?case
    by (simp add: Let_def)
       (intro conjI impI keeps_intros keeps_annotations_prims keeps_annotations_upload Cons.IH
         | simp)+
qed

subsection \<open>Dictionaries and the selection box\<close>

lemma map_of_dict_set: "map_of (dict_set d k v) = (map_of d)(k \<mapsto> v)"
  by (induction d) (auto simp: fun_eq_iff)

lemma keys_dict_set:
  "map fst (dict_set d k v) = (if k \<in> set (map fst d) then map fst d else map fst d @ [k])"
  by (induction d) force+

lemma set_keys_dict_set: "set (map fst (dict_set d k v)) = insert k (set (map fst d))"
  by (auto simp: keys_dict_set)

lemma distinct_dict_set: "distinct (map fst d) \<Longrightarrow> distinct (map fst (dict_set d k v))"
  by (simp add: keys_dict_set)

lemma foldl_dict_set_keys:
  "set (map fst (foldl (\<lambda>d img. dict_set d (title img) (file_id img)) d0 imgs)) =
     set (map fst d0) \<union> title ` set imgs"
  by (induction imgs arbitrary: d0) (simp_all add: set_keys_dict_set del: set_map)

lemma foldl_dict_set_distinct:
  "distinct (map fst d0) \<Longrightarrow>
   distinct (map fst (foldl (\<lambda>d img. dict_set d (title img) (file_id img)) d0 imgs))"
  by (induction imgs arbitrary: d0) (simp_all add: distinct_dict_set)

lemma foldl_dict_set_lookup:
  "map_of (foldl (\<lambda>d img. dict_set d (title img) (file_id img)) d0 imgs) t =
     (case filter (\<lambda>f. title f = t) imgs of
        [] \<Rightarrow> map_of d0 t
      | f # fs \<Rightarrow> Some (file_id (last (f # fs))))"
  by (induction imgs arbitrary: d0) (auto simp: map_of_dict_set split: list.splits)

lemma selectbox_in: "selectbox opts i = Some t \<Longrightarrow> t \<in> set opts"
  by (auto simp: selectbox_def split: if_splits)

subsection \<open>The table built from the session\<close>

lemma add_keys_first: "map fst d = annotation_keys \<Longrightarrow> add_keys [] d = annotation_keys"
  by (simp add: add_keys_def)

lemma add_keys_again:
  "map fst d = annotation_keys \<Longrightarrow> add_keys annotation_keys d = annotation_keys"
  by (simp add: add_keys_def)

lemma foldl_add_keys_again:
  "list_all (\<lambda>d. map fst d = annotation_keys) s \<Longrightarrow> foldl add_keys annotation_keys s = annotation_keys"
  by (induction s) (simp_all add: add_keys_again)

lemma columns_DataFrame:
  assumes "s \<noteq> []" "list_all (\<lambda>d. map fst d = annotation_keys) s"
  shows "columns (DataFrame s) = annotation_keys"
proof (cases s)
  case Nil
  with assms show ?thesis by simp
next
  case (Cons d ds)
  with assms show ?thesis
    by (simp add: DataFrame_def Let_def add_keys_first foldl_add_keys_again)
qed

lemma data_DataFrame: "data (DataFrame s) = map (\<lambda>d. map (cell_at d) (columns (DataFrame s))) s"
  by (simp add: DataFrame_def Let_def)

lemma keys_annotation_of: "map fst (annotation_of t l x0 y0 x1 y1) = annotation_keys"
  by (simp add: annotation_of_def annotation_keys_def)

lemma row_annotation_of:
  "map (cell_at (annotation_of t l x0 y0 x1 y1)) annotation_keys =
     [Str t, Str l, Num x0, Num y0, Num x1, Num y1]"
  by (simp add: annotation_of_def annotation_keys_def cell_at_def)

subsection \<open>Saving annotations\<close>

lemma main_save_annotation_valid:
  assumes "annotations w = Some session" "x_min < x_max" "y_min < y_max"
  shows "main_save_annotation t l x_min y_min x_max y_max w =
      (Inr (), w\<lparr>annotations := Some (session @ [annotation_of t l x_min y_min x_max y_max]),
                 app_log := app_log w @
                   [(INFO, [Lit ''Annotation saved for '', Val t, Lit '': '',
                      Dict (annotation_of t l x_min y_min x_max y_max)])],
                 notices := notices w @ [(St_success, [Lit ''Annotation saved for '', Val t])]\<rparr>)"
  using assms
  by (simp add: main_save_annotation_def session_append_def session_get_def py_defs Let_def)

lemma main_save_annotation_invalid:
  assumes "x_min \<ge> x_max \<or> y_min \<ge> y_max"
  shows "main_save_annotation t l x_min y_min x_max y_max w =
      (Inr (), w\<lparr>app_log := app_log w @
                   [(WARNING, [Lit ''Invalid annotation coordinates for '', Val t, Lit ''.''])],
                 notices := notices w @ [(St_error,
                   [Lit ''Invalid coordinates: x_min must be less than x_max and y_min less than y_max.''])]\<rparr>)"
  using assms
  by (auto simp add: main_save_annotation_def py_defs)

lemma save_annotations_session:
  assumes "annotations w = Some session"
    and "list_all (\<lambda>(t, l, x0, y0, x1, y1). x0 < x1 \<and> y0 < y1) entries"
  shows "annotations (snd (save_annotations entries w)) =
           Some (session @ map (\<lambda>(t, l, x0, y0, x1, y1). annotation_of t l x0 y0 x1 y1) entries)"
  using assms
proof (induction entries arbitrary: w session)
  case Nil
  then show ?case by (simp add: py_return_def)
next
  case (Cons e es)
  obtain t l x0 y0 x1 y1 where e: "e = (t, l, x0, y0, x1, y1)"
    by (cases e) auto
  from Cons.prems e have valid: "x0 < x1" "y0 < y1" and rest: "list_all (\<lambda>(t, l, x0, y0, x1, y1). x0 < x1 \<and> y0 < y1) es"
    by simp_all
  obtain w' where step: "main_save_annotation t l x0 y0 x1 y1 w = (Inr (), w')"
    and sess: "annotations w' = Some (session @ [annotation_of t l x0 y0 x1 y1])"
    using main_save_annotation_valid [OF Cons.prems(1) valid] by simp
  from Cons.IH [OF sess rest] e step show ?case
    by (simp add: py_bind_def)
qed


subsection \<open>The session list is well formed after every run\<close>

lemma preservesD: "preserves P m \<Longrightarrow> P w \<Longrightarrow> P (snd (m w))"
  by (simp add: preserves_def)

lemma preserves_return: "preserves P (py_return x)"
  by (simp add: preserves_def py_return_def)

lemma preserves_raise: "preserves P (py_raise e)"
  by (simp add: preserves_def py_raise_def)

lemma preserves_bind:
  assumes "preserves P m" and "\<And>x. preserves P (g x)"
  shows "preserves P (py_bind m g)"
proof -
  have "P (snd (py_bind m g w))" if "P w" for w
  proof (cases "m w")
    case (Pair r w')
    have w': "P w'" using preservesD [OF assms(1) that] Pair by simp
    show ?thesis
    proof (cases r)
      case (Inl e)
      with Pair w' show ?thesis by (simp add: py_bind_def)
    next
      case (Inr x)
      with Pair preservesD [OF assms(2) w', of x] show ?thesis by (simp add: py_bind_def)
    qed
  qed
  then show ?thesis by (simp add: preserves_def)
qed

lemma preserves_try:
  assumes "preserves P m" and "\<And>e. preserves P (h e)"
  shows "preserves P (py_try m h)"
proof -
  have "P (snd (py_try m h w))" if "P w" for w
  proof (cases "m w")
    case (Pair r w')
    have w': "P w'" using preservesD [OF assms(1) that] Pair by simp
    show ?thesis
    proof (cases r)
      case (Inl e)
      with Pair preservesD [OF assms(2) w', of e] show ?thesis by (simp add: py_try_def)
    next
      case (Inr x)
      with Pair w' show ?thesis by (simp add: py_try_def)
    qed
  qed
  then show ?thesis by (simp add: preserves_def)
qed

lemma keeps_preserves: "keeps annotations m \<Longrightarrow> preserves session_ok m"
  by (simp add: keeps_def preserves_def session_ok_def)

lemma preserves_session_prims:
  "preserves session_ok session_init"
  "preserves session_ok session_get"
  "preserves session_ok session_clear"
  by (auto simp: preserves_def session_ok_def session_init_def session_get_def session_clear_def
      split: option.splits)

lemma preserves_session_append:
  "map fst a = annotation_keys \<Longrightarrow> preserves session_ok (session_append a)"
  by (auto simp: preserves_def session_ok_def session_append_def session_get_def py_bind_def
      split: option.splits)

lemmas preserves_intros = preserves_return preserves_raise preserves_bind preserves_try
  preserves_session_prims
  keeps_annotations_prims [THEN keeps_preserves]
  keeps_annotations_authenticate [THEN keeps_preserves]
  keeps_annotations_upload [THEN keeps_preserves]
  keeps_annotations_list [THEN keeps_preserves]
  keeps_annotations_download [THEN keeps_preserves]
  keeps_annotations_upload_new [THEN keeps_preserves]

lemma preserves_main_save_annotation:
  "preserves session_ok (main_save_annotation t l x0 y0 x1 y1)"
  unfolding main_save_annotation_def Let_def
  by (intro preserves_intros preserves_session_append keys_annotation_of allI conjI impI
      | simp only: split: if_split)+

lemma preserves_main_annotate: "preserves session_ok (main_annotate drive env inp imgs)"
  unfolding main_annotate_def Let_def
  by (intro preserves_intros preserves_main_save_annotation allI conjI impI
      | simp only: split: if_split option.split)+

lemma preserves_main_export: "preserves session_ok (main_export drive env)"
  unfolding main_export_def Let_def to_csv_def
  by (intro preserves_intros allI conjI impI | simp only: split: if_split)+

lemma preserves_main: "preserves session_ok (main env inp)"
  unfolding main_def
  by (intro preserves_intros preserves_main_annotate preserves_main_export allI conjI impI
      | simp only: split: if_split option.split)+

lemma script_session_ok: "session_ok w \<Longrightarrow> session_ok (snd (script env inp w))"
proof -
  have "preserves session_ok (script env inp)"
    unfolding script_def
    by (intro preserves_intros preserves_main)
  then show "session_ok w \<Longrightarrow> session_ok (snd (script env inp w))"
    by (rule preservesD)
qed

subsection \<open>Saving all annotations\<close>

lemma main_export_nonempty:
  assumes "annotations w = Some session" "session \<noteq> []"
  shows "main_export drive env w =
     (Inr (), w\<lparr>local_files := (local_files w)(tmp_name env ''.csv'' \<mapsto>
                      Table (columns (DataFrame session)) (data (DataFrame session))),
               app_log := app_log w @
                 [(ERROR, [Lit ''Failed to upload annotations: '', Exc (AttributeError ''name'')])],
               notices := notices w @
                 [(St_error, [Lit ''Failed to upload annotations to Google Drive.''])]\<rparr>)"
  using assms
  by (simp add: main_export_def session_get_def upload_to_drive_def getattr_name_def to_csv_def
      py_defs Let_def)

lemma main_export_empty:
  assumes "annotations w = Some []"
  shows "main_export drive env w =
     (Inr (), w\<lparr>app_log := app_log w @
                 [(WARNING, [Lit ''Attempted to upload annotations, but none were found.''])],
               notices := notices w @ [(St_warning, [Lit ''No annotations to upload.''])]\<rparr>)"
  using assms
  by (simp add: main_export_def session_get_def py_defs)

subsection \<open>The query of the listing\<close>

lemma scan_string_literal:
  "quote \<notin> set s \<Longrightarrow> backslash \<notin> set s \<Longrightarrow>
   scan (In_string a) (s @ quote # rest) = emit (Some (TStr (rev a @ s))) (scan Between rest)"
  by (induction s arbitrary: a) auto

lemma scan_after_folder_id:
  "scan Between ('' in parents and trashed=false and (mimeType='' @
     [quote] @ ''image/jpeg'' @ [quote] @ '' or mimeType='' @
     [quote] @ ''image/png'' @ [quote] @ '')'') =
   Some [TWord ''in'', TWord ''parents'', TWord ''and'', TWord ''trashed'', TEq, TWord ''false'',
         TWord ''and'', TOpen, TWord ''mimeType'', TEq, TStr ''image/jpeg'', TWord ''or'',
         TWord ''mimeType'', TEq, TStr ''image/png'', TClose]"
  by (simp add: is_letter_def punct_def emit_def quote_def backslash_def)

lemma scan_query_text:
  assumes "quote \<notin> set folder_id" and "backslash \<notin> set folder_id"
  shows "scan Between (query_text folder_id) =
           Some [TStr folder_id,
                 TWord ''in'', TWord ''parents'', TWord ''and'', TWord ''trashed'', TEq,
                 TWord ''false'', TWord ''and'', TOpen, TWord ''mimeType'', TEq,
                 TStr ''image/jpeg'', TWord ''or'', TWord ''mimeType'', TEq,
                 TStr ''image/png'', TClose]"
  unfolding query_text_def
  using scan_string_literal [OF assms, of "[]"] scan_after_folder_id
  by (simp add: punct_def emit_def is_letter_def quote_def)

lemma parse_query_text:
  assumes "quote \<notin> set folder_id" and "backslash \<notin> set folder_id"
  shows "parse_query (query_text folder_id) =
           Some (And_q (And_q (In_parents folder_id) (Trashed_eq False))
                       (Or_q (MimeType_eq ''image/jpeg'') (MimeType_eq ''image/png'')))"
  by (simp add: parse_query_def scan_query_text [OF assms])

text \<open>With a quote in \<open>folder_id\<close> the text is another expression: here the id
  \<^verbatim>\<open>a' in parents or 'YOUR_GOOGLE_DRIVE_FOLDER_ID\<close> lists the images of the configured
  folder, none of which has that id among its parents.\<close>

lemma list_drive_images_quote_in_folder_id:
  "\<exists>files.
     fst (list_drive_images example_drive
            (''a'' @ [quote] @ '' in parents or '' @ [quote] @ ''YOUR_GOOGLE_DRIVE_FOLDER_ID'')
            start_world) = Inr files \<and>
     map file_id files = [''id1'', ''id3'']"
  by (simp add: list_drive_images_def ListFile_GetList_def parse_query_def query_text_def
      is_letter_def punct_def emit_def quote_def backslash_def py_defs example_drive_def
      example_store_def)

subsection \<open>Operations that never raise\<close>

lemma py_try_returns:
  assumes "\<And>e w'. \<exists>x. fst (h e w') = Inr x"
  shows "\<exists>x. fst (py_try m h w) = Inr x"
proof (cases "m w")
  case (Pair r w')
  show ?thesis
  proof (cases r)
    case (Inl e)
    with Pair assms [of e w'] show ?thesis by (simp add: py_try_def)
  next
    case (Inr x)
    with Pair show ?thesis by (simp add: py_try_def)
  qed
qed

lemma authenticate_drive_returns: "\<exists>r. fst (authenticate_drive env w) = Inr r"
  unfolding authenticate_drive_def
  by (rule py_try_returns) (simp add: py_defs)

lemma list_drive_images_returns: "\<exists>r. fst (list_drive_images drive folder_id w) = Inr r"
  unfolding list_drive_images_def
  by (rule py_try_returns) (simp add: py_defs)

lemma download_image_returns: "\<exists>r. fst (download_image drive env fid w) = Inr r"
  unfolding download_image_def
  by (rule py_try_returns) (simp add: py_defs)

lemma upload_to_drive_named_returns:
  "\<exists>r. fst (upload_to_drive drive (Named n) folder_id w) = Inr r"
  unfolding upload_to_drive_def
  by (rule py_try_returns) (simp add: py_defs getattr_name_def)

lemma download_image_local_files:
  "local_files (snd (download_image drive env fid w)) =
     (if CreateFile_error drive = None \<and> (\<exists>bytes. FetchContent_result drive fid = Inr bytes)
      then (local_files w)(''temp_image'' := None) else local_files w)"
  by (cases "FetchContent_result drive fid"; cases "CreateFile_error drive")
     (auto simp: download_image_def GetContentFile_def cv2_imread_def py_defs split: option.splits)

lemma download_image_result:
  "fst (download_image drive env fid w) =
     Inr (case CreateFile_error drive of
            Some e \<Rightarrow> None
          | None \<Rightarrow>
              (case FetchContent_result drive fid of
                 Inl e \<Rightarrow> None
               | Inr bytes \<Rightarrow> imread env (Bytes bytes)))"
  by (cases "FetchContent_result drive fid"; cases "CreateFile_error drive")
     (auto simp: download_image_def GetContentFile_def cv2_imread_def py_defs split: option.splits)

lemma authenticate_drive_result:
  "fst (authenticate_drive env w) = Inr None \<or>
   (\<exists>drive. GoogleDrive_result env = Inr drive \<and> fst (authenticate_drive env w) = Inr (Some drive))"
  by (cases "GoogleAuth_error env"; cases "LoadCredentialsFile_result env";
      cases "SaveCredentialsFile_error env"; cases "GoogleDrive_result env")
     (auto simp: authenticate_drive_def py_defs split: credentials.splits option.splits)

subsection \<open>The upload loop stops at the first file it accepts\<close>

lemma upload_new_images_raises:
  assumes "splitext_lower env (up_name uploaded) \<in> set ALLOWED_IMAGE_EXTENSIONS"
  shows "upload_new_images drive env (uploaded # rest) w =
           (Inl (AttributeError ''name''),
            w\<lparr>local_files := (local_files w)
                 (tmp_name env (splitext_lower env (up_name uploaded)) \<mapsto>
                    Bytes (up_buffer uploaded))\<rparr>)"
  using assms
  by (simp add: upload_to_drive_def getattr_name_def py_defs Let_def)

subsection \<open>The session after the annotation part of a run\<close>

lemma keys_image_options_of: "set (map fst (image_options_of imgs)) = title ` set imgs"
  unfolding image_options_of_def by (simp add: foldl_dict_set_keys del: set_map)

lemma main_annotate_session:
  assumes "annotations w = Some session"
  shows "annotations (snd (main_annotate drive env inp imgs w)) = Some session \<or>
         (\<exists>f\<in>set imgs.
            annotations (snd (main_annotate drive env inp imgs w)) =
              Some (session @ [annotation_of (title f) (label_input inp) (x_min_input inp)
                                 (y_min_input inp) (x_max_input inp) (y_max_input inp)]))"
proof (cases "imgs = []")
  case True
  with assms show ?thesis
    by (simp add: main_annotate_def st_notice_def)
next
  case False
  let ?opts = "image_options_of imgs"
  show ?thesis
  proof (cases "selectbox (map fst ?opts) (selected inp)")
    case None
    with False assms show ?thesis
      by (simp add: main_annotate_def py_raise_def)
  next
    case (Some t)
    then have "t \<in> set (map fst ?opts)"
      by (rule selectbox_in)
    then obtain f where f: "f \<in> set imgs" "title f = t"
      unfolding keys_image_options_of by auto
    show ?thesis
    proof (cases "map_of ?opts t")
      case None
      with False Some assms show ?thesis
        by (simp add: main_annotate_def py_raise_def)
    next
      case (Some fid)
      note fid = this
      obtain r w' where d: "download_image drive env fid w = (r, w')"
        by (cases "download_image drive env fid w")
      have w': "annotations w' = Some session"
        using keepsD [OF keeps_annotations_download, of drive env fid w] d assms by simp
      let ?save = "main_save_annotation t (label_input inp) (x_min_input inp)
                     (y_min_input inp) (x_max_input inp) (y_max_input inp)"
      have run: "main_annotate drive env inp imgs w =
                   (case r of
                      Inl e \<Rightarrow> (Inl e, w')
                    | Inr None \<Rightarrow> (Inr (), w')
                    | Inr (Some img) \<Rightarrow> if save_clicked inp then ?save w' else (Inr (), w'))"
        using False \<open>selectbox (map fst ?opts) (selected inp) = Some t\<close> fid d
        by (simp add: main_annotate_def py_bind_def py_return_def split: sum.split option.split)
      show ?thesis
      proof (cases "\<exists>img. r = Inr (Some img) \<and> save_clicked inp")
        case False
        then have "snd (main_annotate drive env inp imgs w) = w'"
          unfolding run by (auto split: sum.split option.split)
        with w' show ?thesis by simp
      next
        case True
        then have run': "main_annotate drive env inp imgs w = ?save w'"
          unfolding run by auto
        show ?thesis
        proof (cases "x_min_input inp < x_max_input inp \<and> y_min_input inp < y_max_input inp")
          case True
          then have "annotations (snd (?save w')) =
                       Some (session @ [annotation_of t (label_input inp) (x_min_input inp)
                                 (y_min_input inp) (x_max_input inp) (y_max_input inp)])"
            using main_save_annotation_valid [OF w', of "x_min_input inp" "x_max_input inp"
                "y_min_input inp" "y_max_input inp" t "label_input inp"]
            by simp
          with f run' show ?thesis by auto
        next
          case False
          then have "x_min_input inp \<ge> x_max_input inp \<or> y_min_input inp \<ge> y_max_input inp"
            by auto
          from main_save_annotation_invalid [OF this, of t "label_input inp" w'] w' run'
          show ?thesis by simp
        qed
      qed
    qed
  qed
qed

section \<open>Results\<close>

text \<open>
  C1. With the session list in place, "Save Annotation" with \<open>x_min \<ge> x_max\<close> or
  \<open>y_min \<ge> y_max\<close> shows the error, logs the warning and leaves everything else,
  the session included, as it was. With \<open>x_min < x_max\<close> and \<open>y_min < y_max\<close>
  it accepts whatever the label and the values are: the dictionary of the selected title
  (as \<open>filename\<close>), the label and the four bounds goes to the end of the session,
  the success notice is shown and the line is logged.
\<close>

theorem save_annotation_validation:
  assumes "annotations w = Some session"
  shows "(x_min \<ge> x_max \<or> y_min \<ge> y_max \<longrightarrow>
            main_save_annotation t l x_min y_min x_max y_max w =
              (Inr (), w\<lparr>app_log := app_log w @
                   [(WARNING, [Lit ''Invalid annotation coordinates for '', Val t, Lit ''.''])],
                 notices := notices w @ [(St_error,
                   [Lit ''Invalid coordinates: x_min must be less than x_max and y_min less than y_max.''])]\<rparr>)) \<and>
         (x_min < x_max \<and> y_min < y_max \<longrightarrow>
            main_save_annotation t l x_min y_min x_max y_max w =
              (Inr (), w\<lparr>annotations := Some (session @
                   [[(''filename'', Str t), (''label'', Str l), (''x_min'', Num x_min),
                     (''y_min'', Num y_min), (''x_max'', Num x_max), (''y_max'', Num y_max)]]),
                 app_log := app_log w @
                   [(INFO, [Lit ''Annotation saved for '', Val t, Lit '': '',
                      Dict [(''filename'', Str t), (''label'', Str l), (''x_min'', Num x_min),
                     (''y_min'', Num y_min), (''x_max'', Num x_max), (''y_max'', Num y_max)]])],
                 notices := notices w @ [(St_success, [Lit ''Annotation saved for '', Val t])]\<rparr>))"
proof (intro conjI impI)
  assume "x_min \<ge> x_max \<or> y_min \<ge> y_max"
  then show "main_save_annotation t l x_min y_min x_max y_max w =
              (Inr (), w\<lparr>app_log := app_log w @
                   [(WARNING, [Lit ''Invalid annotation coordinates for '', Val t, Lit ''.''])],
                 notices := notices w @ [(St_error,
                   [Lit ''Invalid coordinates: x_min must be less than x_max and y_min less than y_max.''])]\<rparr>)"
    by (rule main_save_annotation_invalid)
next
  assume "x_min < x_max \<and> y_min < y_max"
  then show "main_save_annotation t l x_min y_min x_max y_max w =
              (Inr (), w\<lparr>annotations := Some (session @
                   [[(''filename'', Str t), (''label'', Str l), (''x_min'', Num x_min),
                     (''y_min'', Num y_min), (''x_max'', Num x_max), (''y_max'', Num y_max)]]),
                 app_log := app_log w @
                   [(INFO, [Lit ''Annotation saved for '', Val t, Lit '': '',
                      Dict [(''filename'', Str t), (''label'', Str l), (''x_min'', Num x_min),
                     (''y_min'', Num y_min), (''x_max'', Num x_max), (''y_max'', Num y_max)]])],
                 notices := notices w @ [(St_success, [Lit ''Annotation saved for '', Val t])]\<rparr>)"
    using main_save_annotation_valid [OF assms, of x_min x_max y_min y_max t l]
    by (simp add: annotation_of_def)
qed

theorem save_annotation_validation_witness:
  "annotations start_world = Some [] \<and>
   annotations (snd (main_save_annotation ''a.jpg'' [] 1 2 10 20 start_world)) =
     Some [[(''filename'', Str ''a.jpg''), (''label'', Str []), (''x_min'', Num 1),
            (''y_min'', Num 2), (''x_max'', Num 10), (''y_max'', Num 20)]] \<and>
   annotations (snd (main_save_annotation ''a.jpg'' ''cat'' 10 2 10 20 start_world)) = Some [] \<and>
   annotations (snd (main_save_annotation ''a.jpg'' ''cat'' 1 20 10 2 start_world)) = Some []"
proof -
  have s: "annotations start_world = Some []"
    by (simp add: start_world_def)
  show ?thesis
    using s
      save_annotation_validation [OF s, of 10 1 20 2 "''a.jpg''" "[]"]
      save_annotation_validation [OF s, of 10 10 20 2 "''a.jpg''" "''cat''"]
      save_annotation_validation [OF s, of 10 1 2 20 "''a.jpg''" "''cat''"]
    by simp
qed

text \<open>
  C2. An export on a non-empty session: the upload step is
  \<open>upload_to_drive(drive, tmp_csv.name, GDRIVE_FOLDER_ID)\<close> with a string, which
  fails in every world by raising AttributeError; the handler of line 247 takes it, shows
  "Failed to upload annotations to Google Drive.", and the session after the export is the
  session before it. \<open>main_export\<close> itself returns normally.
\<close>

theorem export_failure_keeps_session:
  assumes "annotations w = Some session" and "session \<noteq> []"
  shows "fst (upload_to_drive drive (PyStr (tmp_name env ''.csv'')) (Some GDRIVE_FOLDER_ID) w') =
           Inl (AttributeError ''name'') \<and>
         fst (main_export drive env w) = Inr () \<and>
         annotations (snd (main_export drive env w)) = Some session \<and>
         notices (snd (main_export drive env w)) =
           notices w @ [(St_error, [Lit ''Failed to upload annotations to Google Drive.''])]"
  using main_export_nonempty [OF assms, of drive env] assms(1)
  by (simp add: upload_to_drive_def getattr_name_def py_defs)

theorem export_failure_keeps_session_witness:
  "annotations (snd (main_export example_drive example_env
      (start_world\<lparr>annotations := Some [annotation_of ''a.jpg'' ''cat'' 1 2 10 20]\<rparr>))) =
     Some [annotation_of ''a.jpg'' ''cat'' 1 2 10 20]"
  using export_failure_keeps_session
    [of "start_world\<lparr>annotations := Some [annotation_of ''a.jpg'' ''cat'' 1 2 10 20]\<rparr>"
        "[annotation_of ''a.jpg'' ''cat'' 1 2 10 20]" example_drive example_env]
  by simp

text \<open>
  C3. Starting from the empty session, saving a non-empty list of valid entries one after
  the other leaves exactly their dictionaries in the session, in the order saved, and an
  export then writes a table with the six-column header and one row per entry, in the
  same order, repeated entries kept, each row holding the entry's filename, label and
  four bounds as they were given. The witness has the entry
  \<open>(a.jpg, cat, 1, 2, 10, 20)\<close> of the specification, twice, around an entry with
  an empty label.
\<close>

theorem export_preserves_append_order:
  assumes "annotations w = Some []"
    and "entries \<noteq> []"
    and "list_all (\<lambda>(t, l, x0, y0, x1, y1). x0 < x1 \<and> y0 < y1) entries"
  shows "annotations (snd (save_annotations entries w)) =
           Some (map (\<lambda>(t, l, x0, y0, x1, y1).
                        [(''filename'', Str t), (''label'', Str l), (''x_min'', Num x0),
                         (''y_min'', Num y0), (''x_max'', Num x1), (''y_max'', Num y1)]) entries) \<and>
         local_files (snd (main_export drive env (snd (save_annotations entries w))))
             (tmp_name env ''.csv'') =
           Some (Table [''filename'', ''label'', ''x_min'', ''y_min'', ''x_max'', ''y_max'']
                   (map (\<lambda>(t, l, x0, y0, x1, y1). [Str t, Str l, Num x0, Num y0, Num x1, Num y1])
                        entries))"
proof -
  let ?ann = "\<lambda>(t, l, x0, y0, x1, y1). annotation_of t l x0 y0 x1 y1"
  let ?w = "snd (save_annotations entries w)"
  have sess: "annotations ?w = Some (map ?ann entries)"
    using save_annotations_session [OF assms(1) assms(3)] by simp
  have ne: "map ?ann entries \<noteq> []"
    using assms(2) by simp
  have ok: "list_all (\<lambda>d. map fst d = annotation_keys) (map ?ann entries)"
    by (auto simp: list_all_iff keys_annotation_of)
  have cols: "columns (DataFrame (map ?ann entries)) = annotation_keys"
    by (rule columns_DataFrame [OF ne ok])
  have rows: "data (DataFrame (map ?ann entries)) =
                map (\<lambda>(t, l, x0, y0, x1, y1). [Str t, Str l, Num x0, Num y0, Num x1, Num y1]) entries"
    by (auto simp: data_DataFrame cols row_annotation_of)
  have csv: "local_files (snd (main_export drive env ?w)) (tmp_name env ''.csv'') =
                Some (Table (columns (DataFrame (map ?ann entries)))
                            (data (DataFrame (map ?ann entries))))"
    using main_export_nonempty [OF sess ne, of drive env] by simp
  have first: "map ?ann entries = map (\<lambda>(t, l, x0, y0, x1, y1).
                        [(''filename'', Str t), (''label'', Str l), (''x_min'', Num x0),
                         (''y_min'', Num y0), (''x_max'', Num x1), (''y_max'', Num y1)]) entries"
    by (auto simp: annotation_of_def)
  have sess': "annotations ?w = Some (map (\<lambda>(t, l, x0, y0, x1, y1).
                        [(''filename'', Str t), (''label'', Str l), (''x_min'', Num x0),
                         (''y_min'', Num y0), (''x_max'', Num x1), (''y_max'', Num y1)]) entries)"
    using sess unfolding first .
  have csv': "local_files (snd (main_export drive env ?w)) (tmp_name env ''.csv'') =
                Some (Table annotation_keys
                  (map (\<lambda>(t, l, x0, y0, x1, y1). [Str t, Str l, Num x0, Num y0, Num x1, Num y1])
                       entries))"
    using csv unfolding cols rows .
  show ?thesis
    using sess' csv' by (simp add: annotation_keys_def)
qed

theorem export_preserves_append_order_witness:
  "local_files (snd (main_export example_drive example_env
      (snd (save_annotations
         [(''a.jpg'', ''cat'', 1, 2, 10, 20), (''b.png'', [], 0, 0, 5, 5),
          (''a.jpg'', ''cat'', 1, 2, 10, 20)] start_world))))
     ''/tmp/tmpk3x9.csv'' =
   Some (Table [''filename'', ''label'', ''x_min'', ''y_min'', ''x_max'', ''y_max'']
          [[Str ''a.jpg'', Str ''cat'', Num 1, Num 2, Num 10, Num 20],
           [Str ''b.png'', Str [], Num 0, Num 0, Num 5, Num 5],
           [Str ''a.jpg'', Str ''cat'', Num 1, Num 2, Num 10, Num 20]])"
proof -
  have s: "annotations start_world = Some []"
    by (simp add: start_world_def)
  show ?thesis
    using export_preserves_append_order [OF s, of
        "[(''a.jpg'', ''cat'', 1, 2, 10, 20), (''b.png'', [], 0, 0, 5, 5),
          (''a.jpg'', ''cat'', 1, 2, 10, 20)]" example_drive example_env]
    by (simp add: example_env_def)
qed

text \<open>
  C4. An export on a non-empty session whose dictionaries have the six keys (which every
  run of the script maintains, see \<open>script_session_ok\<close>) writes a table whose header
  is \<open>filename, label, x_min, y_min, x_max, y_max\<close> in that order and whose number
  of rows is the length of the session.
\<close>

theorem export_table_shape:
  assumes "annotations w = Some session"
    and "session \<noteq> []"
    and "list_all (\<lambda>d. map fst d =
            [''filename'', ''label'', ''x_min'', ''y_min'', ''x_max'', ''y_max'']) session"
  shows "\<exists>rows.
           local_files (snd (main_export drive env w)) (tmp_name env ''.csv'') =
             Some (Table [''filename'', ''label'', ''x_min'', ''y_min'', ''x_max'', ''y_max''] rows) \<and>
           length rows = length session"
proof -
  have ok: "list_all (\<lambda>d. map fst d = annotation_keys) session"
    using assms(3) by (simp add: annotation_keys_def)
  have cols: "columns (DataFrame session) = annotation_keys"
    by (rule columns_DataFrame [OF assms(2) ok])
  have len: "length (data (DataFrame session)) = length session"
    by (simp add: data_DataFrame)
  have "local_files (snd (main_export drive env w)) (tmp_name env ''.csv'') =
          Some (Table annotation_keys (data (DataFrame session)))"
    using main_export_nonempty [OF assms(1) assms(2), of drive env] by (simp add: cols)
  with len show ?thesis
    by (auto simp: annotation_keys_def)
qed

theorem export_table_shape_witness:
  "\<exists>rows.
     local_files (snd (main_export example_drive example_env
        (start_world\<lparr>annotations := Some [annotation_of ''a.jpg'' ''cat'' 1 2 10 20,
                                            annotation_of ''b.png'' [] 0 0 5 5]\<rparr>)))
        ''/tmp/tmpk3x9.csv'' =
       Some (Table [''filename'', ''label'', ''x_min'', ''y_min'', ''x_max'', ''y_max''] rows) \<and>
     length rows = 2"
  using export_table_shape
    [of "start_world\<lparr>annotations := Some [annotation_of ''a.jpg'' ''cat'' 1 2 10 20,
                                            annotation_of ''b.png'' [] 0 0 5 5]\<rparr>"
        "[annotation_of ''a.jpg'' ''cat'' 1 2 10 20, annotation_of ''b.png'' [] 0 0 5 5]"
        example_drive example_env]
  by (auto simp: annotation_of_def example_env_def)

text \<open>
  C5. An export on the empty session makes no call to the remote store and touches no
  local file; it shows "No annotations to upload." and the session is still empty.
\<close>

theorem export_on_empty_session:
  assumes "annotations w = Some []"
  shows "fst (main_export drive env w) = Inr () \<and>
         remote_calls (snd (main_export drive env w)) = remote_calls w \<and>
         local_files (snd (main_export drive env w)) = local_files w \<and>
         notices (snd (main_export drive env w)) =
           notices w @ [(St_warning, [Lit ''No annotations to upload.''])] \<and>
         annotations (snd (main_export drive env w)) = Some []"
  using main_export_empty [OF assms, of drive env] assms
  by simp

theorem export_on_empty_session_witness:
  "remote_calls (snd (main_export example_drive example_env start_world)) = [] \<and>
   notices (snd (main_export example_drive example_env start_world)) =
     [(St_warning, [Lit ''No annotations to upload.''])] \<and>
   annotations (snd (main_export example_drive example_env start_world)) = Some []"
proof -
  have s: "annotations start_world = Some []"
    by (simp add: start_world_def)
  show ?thesis
    using export_on_empty_session [OF s, of example_drive example_env]
    by (simp add: start_world_def)
qed

text \<open>
  C6. \<open>authenticate_drive\<close>, \<open>list_drive_images\<close> and \<open>download_image\<close>
  never raise (\<open>authenticate_drive_returns\<close>, \<open>list_drive_images_returns\<close>,
  \<open>download_image_returns\<close>), and neither does \<open>upload_to_drive\<close> on an object
  with a \<open>name\<close> (\<open>upload_to_drive_named_returns\<close>). On the path
  \<open>/tmp/tmpk3x9.csv\<close>, a string as \<open>main\<close> passes it, \<open>upload_to_drive\<close>
  does not return \<open>None\<close>: the AttributeError leaves the function, and neither the
  log nor the page has a line about it.
\<close>

theorem upload_to_drive_str_escapes:
  "upload_to_drive example_drive (PyStr ''/tmp/tmpk3x9.csv'') (Some GDRIVE_FOLDER_ID) start_world =
     (Inl (AttributeError ''name''), start_world)"
  by (simp add: upload_to_drive_def getattr_name_def py_defs)

text \<open>
  C7. For a folder id without a quote or a backslash (the ids the store gives its
  folders have neither, and \<open>GDRIVE_FOLDER_ID\<close> has neither) \<open>list_drive_images\<close>
  never raises. When \<open>GetList\<close> answers, the result is exactly the files of the store
  that have the folder among their parents, are not trashed and have MIME type
  image/jpeg or image/png, in the store's order; when \<open>GetList\<close> raises, the result
  is the empty list. In the witness the folder holds two such images, a text file and a
  trashed image. An id with a quote in it changes the expression the store reads
  (\<open>list_drive_images_quote_in_folder_id\<close>).
\<close>

theorem list_drive_images_result:
  assumes "quote \<notin> set folder_id" and "backslash \<notin> set folder_id"
  shows "fst (list_drive_images drive folder_id w) =
     Inr (case GetList_error drive of
            None \<Rightarrow> filter (\<lambda>f. folder_id \<in> set (parents f) \<and> \<not> trashed f \<and>
                                (mimeType f = ''image/jpeg'' \<or> mimeType f = ''image/png''))
                           (store drive)
          | Some e \<Rightarrow> [])"
proof -
  have sel: "eval_query (And_q (And_q (In_parents folder_id) (Trashed_eq False))
                          (Or_q (MimeType_eq ''image/jpeg'') (MimeType_eq ''image/png''))) =
               (\<lambda>f. folder_id \<in> set (parents f) \<and> \<not> trashed f \<and>
                  (mimeType f = ''image/jpeg'' \<or> mimeType f = ''image/png''))"
    by (auto simp: fun_eq_iff)
  show ?thesis
    by (simp add: list_drive_images_def ListFile_GetList_def parse_query_text [OF assms] sel
        py_defs split: option.split)
qed

theorem list_drive_images_result_witness:
  "quote \<notin> set GDRIVE_FOLDER_ID \<and> backslash \<notin> set GDRIVE_FOLDER_ID \<and>
   fst (list_drive_images example_drive GDRIVE_FOLDER_ID start_world) =
     Inr [\<lparr>file_id = ''id1'', title = ''photo.png'', mimeType = ''image/png'', trashed = False,
           parents = [''YOUR_GOOGLE_DRIVE_FOLDER_ID'']\<rparr>,
          \<lparr>file_id = ''id3'', title = ''photo.png'', mimeType = ''image/jpeg'', trashed = False,
           parents = [''YOUR_GOOGLE_DRIVE_FOLDER_ID'']\<rparr>] \<and>
   fst (list_drive_images (example_drive\<lparr>GetList_error := Some (LibraryError ''HttpError'')\<rparr>)
          GDRIVE_FOLDER_ID start_world) = Inr []"
proof -
  have q: "quote \<notin> set GDRIVE_FOLDER_ID" and b: "backslash \<notin> set GDRIVE_FOLDER_ID"
    by (simp_all add: GDRIVE_FOLDER_ID_def quote_def backslash_def)
  show ?thesis
    using q b
      list_drive_images_result [OF q b, of example_drive start_world]
      list_drive_images_result
        [OF q b, of "example_drive\<lparr>GetList_error := Some (LibraryError ''HttpError'')\<rparr>"
          start_world]
    by (simp add: example_drive_def example_store_def GDRIVE_FOLDER_ID_def)
qed

text \<open>
  C8. \<open>download_image\<close> removes \<open>temp_image\<close> whenever it wrote it, whatever
  \<open>cv2.imread\<close> made of it (\<open>download_image_local_files\<close>). The other two
  transient files stay behind (\<open>main_export_nonempty\<close>,
  \<open>upload_new_images_raises\<close>): after an export of a session of one annotation the
  temporary CSV still exists with the table in it, and after the upload loop on
  \<open>photo.png\<close> the temporary copy still exists and the AttributeError of
  \<open>upload_to_drive\<close> has left the loop before \<open>os.remove\<close>.
\<close>

theorem temporary_files_left_behind:
  "local_files (snd (main_export example_drive example_env
      (start_world\<lparr>annotations := Some [annotation_of ''a.jpg'' ''cat'' 1 2 10 20]\<rparr>)))
     ''/tmp/tmpk3x9.csv'' =
     Some (Table [''filename'', ''label'', ''x_min'', ''y_min'', ''x_max'', ''y_max'']
                 [[Str ''a.jpg'', Str ''cat'', Num 1, Num 2, Num 10, Num 20]]) \<and>
   upload_new_images example_drive example_env
      [\<lparr>up_name = ''photo.png'', up_buffer = ''pixels''\<rparr>] start_world =
     (Inl (AttributeError ''name''),
      start_world\<lparr>local_files := [''/tmp/tmpk3x9.png'' \<mapsto> Bytes ''pixels'']\<rparr>)"
proof -
  let ?a = "annotation_of ''a.jpg'' ''cat'' 1 2 10 20"
  let ?w = "start_world\<lparr>annotations := Some [?a]\<rparr>"
  have cols: "columns (DataFrame [?a]) = annotation_keys"
    by (rule columns_DataFrame) (simp_all add: keys_annotation_of)
  have rows: "data (DataFrame [?a]) = [[Str ''a.jpg'', Str ''cat'', Num 1, Num 2, Num 10, Num 20]]"
    by (simp add: data_DataFrame cols row_annotation_of)
  have "local_files (snd (main_export example_drive example_env ?w)) ''/tmp/tmpk3x9.csv'' =
          Some (Table annotation_keys [[Str ''a.jpg'', Str ''cat'', Num 1, Num 2, Num 10, Num 20]])"
    using main_export_nonempty [of ?w "[?a]" example_drive example_env]
    by (simp add: cols rows example_env_def)
  moreover have "upload_new_images example_drive example_env
      [\<lparr>up_name = ''photo.png'', up_buffer = ''pixels''\<rparr>] start_world =
     (Inl (AttributeError ''name''),
      start_world\<lparr>local_files := [''/tmp/tmpk3x9.png'' \<mapsto> Bytes ''pixels'']\<rparr>)"
    by (simp add: example_env_def ALLOWED_IMAGE_EXTENSIONS_def upload_to_drive_def
        getattr_name_def py_defs start_world_def Let_def)
  ultimately show ?thesis
    by (simp add: annotation_keys_def)
qed

text \<open>
  C9. Called with a plain string as \<open>file_obj\<close> (what both call sites in \<open>main\<close>
  pass), \<open>upload_to_drive\<close> raises AttributeError at \<open>file_obj.name\<close>, its handler
  raises AttributeError again at its own \<open>file_obj.name\<close>, and that exception reaches
  the caller: the result is neither a file id nor \<open>None\<close>, and nothing was logged,
  shown or sent to the store.
\<close>

theorem upload_to_drive_str_raises:
  "upload_to_drive drive (PyStr path) folder_id w = (Inl (AttributeError ''name''), w)"
  by (simp add: upload_to_drive_def py_try_def py_bind_def getattr_name_def py_raise_def)

text \<open>
  C10. In the dictionary \<open>image_options\<close> a title maps to the id of the last listed
  file with that title; the titles offered for selection are the distinct titles of the
  listing. After the annotation part of a run the session is what it was, or it has one
  more dictionary, at the end, whose filename is the title of a listed file.
\<close>

theorem image_options_last_title_wins:
  assumes "annotations w = Some session"
  shows "map_of (image_options_of drive_images) t =
           (case filter (\<lambda>f. title f = t) drive_images of
              [] \<Rightarrow> None
            | f # fs \<Rightarrow> Some (file_id (last (f # fs)))) \<and>
         distinct (map fst (image_options_of drive_images)) \<and>
         set (map fst (image_options_of drive_images)) = title ` set drive_images \<and>
         (annotations (snd (main_annotate drive env inp drive_images w)) = Some session \<or>
          (\<exists>f\<in>set drive_images.
             annotations (snd (main_annotate drive env inp drive_images w)) =
               Some (session @
                 [[(''filename'', Str (title f)), (''label'', Str (label_input inp)),
                   (''x_min'', Num (x_min_input inp)), (''y_min'', Num (y_min_input inp)),
                   (''x_max'', Num (x_max_input inp)), (''y_max'', Num (y_max_input inp))]])))"
proof (intro conjI)
  show "map_of (image_options_of drive_images) t =
           (case filter (\<lambda>f. title f = t) drive_images of
              [] \<Rightarrow> None
            | f # fs \<Rightarrow> Some (file_id (last (f # fs))))"
    unfolding image_options_of_def by (simp add: foldl_dict_set_lookup split: list.split)
  show "distinct (map fst (image_options_of drive_images))"
    unfolding image_options_of_def by (rule foldl_dict_set_distinct) simp
  show "set (map fst (image_options_of drive_images)) = title ` set drive_images"
    by (rule keys_image_options_of)
  show "annotations (snd (main_annotate drive env inp drive_images w)) = Some session \<or>
          (\<exists>f\<in>set drive_images.
             annotations (snd (main_annotate drive env inp drive_images w)) =
               Some (session @
                 [[(''filename'', Str (title f)), (''label'', Str (label_input inp)),
                   (''x_min'', Num (x_min_input inp)), (''y_min'', Num (y_min_input inp)),
                   (''x_max'', Num (x_max_input inp)), (''y_max'', Num (y_max_input inp))]]))"
    using main_annotate_session [OF assms, of drive env inp drive_images]
    by (simp add: annotation_of_def)
qed

theorem image_options_last_title_wins_witness:
  "annotations start_world = Some [] \<and>
   map fst (image_options_of example_store) = [''photo.png'', ''notes.txt'', ''old.jpg''] \<and>
   map_of (image_options_of example_store) ''photo.png'' = Some ''id3'' \<and>
   annotations (snd (main_annotate example_drive example_env example_inputs example_store
                       start_world)) =
     Some [[(''filename'', Str ''photo.png''), (''label'', Str ''cat''), (''x_min'', Num 1),
            (''y_min'', Num 2), (''x_max'', Num 10), (''y_max'', Num 20)]]"
proof -
  have s: "annotations start_world = Some []"
    by (simp add: start_world_def)
  have opts: "image_options_of example_store =
                [(''photo.png'', ''id3''), (''notes.txt'', ''id2''), (''old.jpg'', ''id4'')]"
    by (simp add: image_options_of_def example_store_def)
  have ne: "example_store \<noteq> []"
    by (simp add: example_store_def)
  have dl: "download_image example_drive example_env ''id3'' start_world =
              (Inr (Some \<lparr>height = 480, width = 640\<rparr>),
               start_world\<lparr>app_log := [(INFO, [Lit ''Downloaded image ID: '', Val ''id3''])],
                           remote_calls := [Call_FetchContent ''id3'']\<rparr>)"
    by (simp add: download_image_def GetContentFile_def cv2_imread_def example_drive_def
        example_env_def start_world_def py_defs fun_eq_iff)
  have run: "annotations (snd (main_annotate example_drive example_env example_inputs
                                 example_store start_world)) =
               Some [annotation_of ''photo.png'' ''cat'' 1 2 10 20]"
    using ne s
    by (simp add: main_annotate_def opts selectbox_def dl example_inputs_def Let_def
        main_save_annotation_def session_append_def session_get_def py_defs)
  show ?thesis
    using s run opts
      image_options_last_title_wins [OF s, of example_store "''photo.png''"
        example_drive example_env example_inputs]
    by (simp add: annotation_of_def)
qed

end
